theory Spec2Isabelle
  imports Main "HOL-Library.Word"
begin

section \<open>Entities and the audit timestamp\<close>

text \<open>
  \<^verbatim>\<open>qtime.DateTime\<close> is read by the layer only through \<^verbatim>\<open>ref.Get("LastTime")\<close>, which is
  compared with the text \<^verbatim>\<open>"0001-01-01 00:00:00"\<close>. A timestamp is therefore modelled by
  the text the accessor reads. \<^verbatim>\<open>qtime.NewDateTime(time.Now())\<close> is the argument \<open>now\<close> of
  every write operation.
\<close>

type_synonym DateTime = string

definition zero_time :: DateTime where
  "zero_time = ''0001-01-01 00:00:00''"

text \<open>
  \<^verbatim>\<open>DbSimple\<close> and \<^verbatim>\<open>DbFull\<close> of database.go. The field \<^verbatim>\<open>Id\<close> is written \<open>Id'\<close> (HOL has a
  constant \<open>Id\<close>). An entity type \<^verbatim>\<open>T\<close> of the generic repository is any extension of
  \<open>DbSimple\<close>.
\<close>

record DbSimple =
  Id' :: "64 word"
  LastTime :: DateTime

record DbFull = DbSimple +
  Summary :: string
  FullInfo :: string

text \<open>
  The type parameter \<^verbatim>\<open>T\<close> is carried as what the code asks of it:
  \<^verbatim>\<open>reflect.TypeOf(*m).Name()\<close> and the value \<^verbatim>\<open>new(T)\<close> points to.
\<close>

record 'm type_T =
  Name :: string
  new :: 'm

subsection \<open>The reflective field accessor\<close>

text \<open>
  \<^verbatim>\<open>qreflect.New(x)\<close> wraps the instance it is given; \<^verbatim>\<open>Get\<close> and \<^verbatim>\<open>Set\<close> read and write
  a field of that instance. Go passes \<open>x\<close> by value: when \<open>x\<close> is a pointer \<^verbatim>\<open>*T\<close> the
  instance is the caller's model, when \<open>x\<close> is a \<^verbatim>\<open>T\<close> the instance is a copy of it.
  The callers below say which of the two they pass. The error \<^verbatim>\<open>Set\<close> returns is dropped
  by every caller (\<^verbatim>\<open>_ = ref.Set(...)\<close>).
\<close>

record 'm Reflect =
  obj :: 'm

definition qreflect_New :: "'m \<Rightarrow> 'm Reflect" where
  "qreflect_New x = \<lparr>obj = x\<rparr>"

definition Get_LastTime :: "('z DbSimple_scheme) Reflect \<Rightarrow> DateTime" where
  "Get_LastTime ref = LastTime (obj ref)"

definition Set_LastTime :: "('z DbSimple_scheme) Reflect \<Rightarrow> DateTime \<Rightarrow> ('z DbSimple_scheme) Reflect" where
  "Set_LastTime ref v = ref\<lparr>obj := (obj ref)\<lparr>LastTime := v\<rparr>\<rparr>"

section \<open>The database engine\<close>

text \<open>
  \<^verbatim>\<open>gorm.DB\<close> is an external library. Each call the layer makes on it is a field of the
  record \<open>DB\<close>, a function of the database contents \<open>'d\<close> that returns what the code
  reads back: \<^verbatim>\<open>result.Error\<close>, \<^verbatim>\<open>result.RowsAffected\<close>, the destination of a query, and
  the new contents. The theorems hold for every engine unless they name a property of it.
\<close>

record result =
  Error :: "string option"
  RowsAffected :: int

text \<open>
  An error the layer returns is either the engine's (\<^verbatim>\<open>result.Error\<close>) or one it makes
  itself with \<^verbatim>\<open>errors.New\<close>, which is a value of its own, equal to no error of the engine.
\<close>

datatype error = EngineError string | errors_New string

definition returned :: "result \<Rightarrow> error option" where
  "returned r = map_option EngineError (Error r)"

text \<open>Arguments of type \<^verbatim>\<open>interface{}\<close>: the query of a condition and its positional arguments.\<close>

datatype any = Uint64 "64 word" | Str string

text \<open>The statement a call chain builds: \<^verbatim>\<open>Where\<close>, \<^verbatim>\<open>Limit\<close>, \<^verbatim>\<open>Offset\<close>.\<close>

record stmt =
  conds :: "(any \<times> any list) list"
  limit :: "int option"
  offset :: "int option"

definition new_stmt :: stmt where
  "new_stmt = \<lparr>conds = [], limit = None, offset = None\<rparr>"

definition Where :: "any \<Rightarrow> any list \<Rightarrow> stmt \<Rightarrow> stmt" where
  "Where query args s = s\<lparr>conds := conds s @ [(query, args)]\<rparr>"

definition Limit :: "int \<Rightarrow> stmt \<Rightarrow> stmt" where
  "Limit n s = s\<lparr>limit := Some n\<rparr>"

definition Offset :: "int \<Rightarrow> stmt \<Rightarrow> stmt" where
  "Offset n s = s\<lparr>offset := Some n\<rparr>"

text \<open>
  A query returns \<open>None\<close> for the rows when it failed before any row was scanned (the
  destination is then left as it was), and \<open>Some rows\<close> with the rows it scanned.
  \<^verbatim>\<open>Transaction\<close> takes the callback, which is run on the handle of the transaction and
  is here a function of the contents.
\<close>

record ('d, 'm) DB =
  Create_exec :: "'m \<Rightarrow> 'd \<Rightarrow> result \<times> 'd"
  Updates_exec :: "'m \<Rightarrow> 'd \<Rightarrow> result \<times> 'd"
  Save_exec :: "'m \<Rightarrow> 'd \<Rightarrow> result \<times> 'd"
  Delete_exec :: "stmt \<Rightarrow> 'd \<Rightarrow> result \<times> 'd"
  Find_exec :: "stmt \<Rightarrow> 'd \<Rightarrow> 'm list option \<times> result"
  HasTable :: "string \<Rightarrow> 'd \<Rightarrow> bool"
  AutoMigrate :: "'m type_T \<Rightarrow> 'd \<Rightarrow> string option \<times> 'd"
  Transaction :: "('d \<Rightarrow> error option \<times> 'd) \<Rightarrow> 'd \<Rightarrow> error option \<times> 'd"

text \<open>
  A Go slice is \<^verbatim>\<open>nil\<close> or holds elements; \<^verbatim>\<open>make([]T, 0)\<close> is the empty slice that is not
  \<^verbatim>\<open>nil\<close>. \<^verbatim>\<open>Find(&list)\<close> empties the destination and appends the rows it scans;
  \<^verbatim>\<open>Find(model)\<close> on a single struct scans the first row into it.
\<close>

datatype 'a slice = nil | Slice "'a list"

definition make_slice :: "'a slice" where
  "make_slice = Slice []"

definition Find_slice :: "('d, 'm) DB \<Rightarrow> stmt \<Rightarrow> 'm slice \<Rightarrow> 'd \<Rightarrow> 'm slice \<times> result" where
  "Find_slice g s dest d =
     (case Find_exec g s d of
        (None, r) \<Rightarrow> (dest, r)
      | (Some rows, r) \<Rightarrow> (Slice rows, r))"

definition Find_struct :: "('d, 'm) DB \<Rightarrow> stmt \<Rightarrow> 'm \<Rightarrow> 'd \<Rightarrow> 'm \<times> result" where
  "Find_struct g s dest d =
     (case Find_exec g s d of
        (None, r) \<Rightarrow> (dest, r)
      | (Some [], r) \<Rightarrow> (dest, r)
      | (Some (row # rest), r) \<Rightarrow> (row, r))"

section \<open>The generic repository\<close>

record ('d, 'm) Dao =
  db :: "('d, 'm) DB"
  T :: "'m type_T"

definition NewDao :: "('d, 'm) DB \<Rightarrow> 'm type_T \<Rightarrow> 'd \<Rightarrow> ('d, 'm) Dao option \<times> 'd" where
  "NewDao g t d =
     (if HasTable g (Name t) d = False then
        (case AutoMigrate g t d of
           (Some err, d') \<Rightarrow> (None, d')
         | (None, d') \<Rightarrow> (Some \<lparr>db = g, T = t\<rparr>, d'))
      else (Some \<lparr>db = g, T = t\<rparr>, d))"

subsection \<open>Single writes\<close>

text \<open>
  \<^verbatim>\<open>Create\<close>, \<^verbatim>\<open>Update\<close> and \<^verbatim>\<open>Save\<close> take \<^verbatim>\<open>model *T\<close>: the accessor is made from the
  pointer, so what \<^verbatim>\<open>Set\<close> writes is the caller's model, and the model after the call is
  returned together with the error and the new contents.
\<close>

definition Create :: "('d, 'z DbSimple_scheme) Dao \<Rightarrow> DateTime \<Rightarrow> 'z DbSimple_scheme \<Rightarrow> 'd
    \<Rightarrow> error option \<times> 'z DbSimple_scheme \<times> 'd" where
  "Create dao now model d =
     (let ref = qreflect_New model;
          ref = (if Get_LastTime ref = zero_time then Set_LastTime ref now else ref);
          model = obj ref;
          (result, d') = Create_exec (db dao) model d
      in (returned result, model, d'))"

definition Update :: "('d, 'z DbSimple_scheme) Dao \<Rightarrow> DateTime \<Rightarrow> 'z DbSimple_scheme \<Rightarrow> 'd
    \<Rightarrow> error option \<times> 'z DbSimple_scheme \<times> 'd" where
  "Update dao now model d =
     (let ref = qreflect_New model;
          ref = (if Get_LastTime ref = zero_time then Set_LastTime ref now else ref);
          model = obj ref;
          (result, d') = Updates_exec (db dao) model d
      in if RowsAffected result > 0 then (None, model, d')
         else if Error result \<noteq> None then (returned result, model, d')
         else (Some (errors_New ''update record does not exist''), model, d'))"

definition Save :: "('d, 'z DbSimple_scheme) Dao \<Rightarrow> DateTime \<Rightarrow> 'z DbSimple_scheme \<Rightarrow> 'd
    \<Rightarrow> error option \<times> 'z DbSimple_scheme \<times> 'd" where
  "Save dao now model d =
     (let ref = qreflect_New model;
          ref = (if Get_LastTime ref = zero_time then Set_LastTime ref now else ref);
          model = obj ref;
          (result, d') = Save_exec (db dao) model d
      in (returned result, model, d'))"

subsection \<open>Batch writes\<close>

text \<open>
  In the batch operations \<^verbatim>\<open>model\<close> is the loop variable of \<^verbatim>\<open>for _, model := range list\<close>,
  a \<^verbatim>\<open>T\<close>. \<^verbatim>\<open>qreflect.New(model)\<close> receives a copy of it, so \<^verbatim>\<open>Set\<close> writes that copy;
  the write that follows takes \<^verbatim>\<open>&model\<close>, the loop variable itself. Each function below
  is the callback given to \<^verbatim>\<open>Transaction\<close>, run on the transaction's handle \<open>tx\<close>.
\<close>

fun CreateList_fc :: "('d, 'z DbSimple_scheme) DB \<Rightarrow> DateTime \<Rightarrow> 'z DbSimple_scheme list \<Rightarrow> 'd
    \<Rightarrow> error option \<times> 'd" where
  "CreateList_fc tx now [] d = (None, d)"
| "CreateList_fc tx now (model # list) d =
     (let ref = qreflect_New model;
          ref = (if Get_LastTime ref = zero_time then Set_LastTime ref now else ref);
          (result, d') = Create_exec tx model d
      in if Error result \<noteq> None then (returned result, d')
         else CreateList_fc tx now list d')"

definition CreateList :: "('d, 'z DbSimple_scheme) Dao \<Rightarrow> DateTime \<Rightarrow> 'z DbSimple_scheme list \<Rightarrow> 'd
    \<Rightarrow> error option \<times> 'd" where
  "CreateList dao now list d = Transaction (db dao) (CreateList_fc (db dao) now list) d"

fun UpdateList_fc :: "('d, 'z DbSimple_scheme) DB \<Rightarrow> DateTime \<Rightarrow> 'z DbSimple_scheme list \<Rightarrow> 'd
    \<Rightarrow> error option \<times> 'd" where
  "UpdateList_fc tx now [] d = (None, d)"
| "UpdateList_fc tx now (model # list) d =
     (let ref = qreflect_New model;
          ref = (if Get_LastTime ref = zero_time then Set_LastTime ref now else ref);
          (result, d') = Updates_exec tx model d
      in if Error result \<noteq> None then (returned result, d')
         else UpdateList_fc tx now list d')"

definition UpdateList :: "('d, 'z DbSimple_scheme) Dao \<Rightarrow> DateTime \<Rightarrow> 'z DbSimple_scheme list \<Rightarrow> 'd
    \<Rightarrow> error option \<times> 'd" where
  "UpdateList dao now list d = Transaction (db dao) (UpdateList_fc (db dao) now list) d"

fun SaveList_fc :: "('d, 'z DbSimple_scheme) DB \<Rightarrow> DateTime \<Rightarrow> 'z DbSimple_scheme list \<Rightarrow> 'd
    \<Rightarrow> error option \<times> 'd" where
  "SaveList_fc tx now [] d = (None, d)"
| "SaveList_fc tx now (model # list) d =
     (let ref = qreflect_New model;
          ref = (if Get_LastTime ref = zero_time then Set_LastTime ref now else ref);
          (result, d') = Save_exec tx model d
      in if Error result \<noteq> None then (returned result, d')
         else SaveList_fc tx now list d')"

definition SaveList :: "('d, 'z DbSimple_scheme) Dao \<Rightarrow> DateTime \<Rightarrow> 'z DbSimple_scheme list \<Rightarrow> 'd
    \<Rightarrow> error option \<times> 'd" where
  "SaveList dao now list d = Transaction (db dao) (SaveList_fc (db dao) now list) d"

subsection \<open>Delete and the queries\<close>

definition Delete :: "('d, 'm) Dao \<Rightarrow> 64 word \<Rightarrow> 'd \<Rightarrow> error option \<times> 'd" where
  "Delete dao id' d =
     (let (result, d') = Delete_exec (db dao) (Where (Str ''id = ?'') [Uint64 id'] new_stmt) d
      in (returned result, d'))"

definition GetModel :: "('d, 'm) Dao \<Rightarrow> 64 word \<Rightarrow> 'd \<Rightarrow> 'm option \<times> error option" where
  "GetModel dao id' d =
     (let model = new (T dao);
          (model, result) =
             Find_struct (db dao) (Where (Str ''id = ?'') [Uint64 id'] new_stmt) model d
      in if Error result \<noteq> None \<or> RowsAffected result = 0 then (None, returned result)
         else (Some model, None))"

text \<open>
  \<^verbatim>\<open>GetList\<close> converts \<^verbatim>\<open>startId uint64\<close> with \<^verbatim>\<open>int(startId)\<close>: the same 64 bits read as a
  signed number (\<open>sint\<close>).
\<close>

definition GetList :: "('d, 'm) Dao \<Rightarrow> 64 word \<Rightarrow> int \<Rightarrow> 'd \<Rightarrow> 'm slice \<times> error option" where
  "GetList dao startId maxCount d =
     (let list = make_slice;
          (list, result) =
             Find_slice (db dao) (Offset (sint startId) (Limit maxCount new_stmt)) list d
      in if Error result \<noteq> None \<or> RowsAffected result = 0 then (list, returned result)
         else (list, None))"

definition GetAll :: "('d, 'm) Dao \<Rightarrow> 'd \<Rightarrow> 'm slice \<times> error option" where
  "GetAll dao d =
     (let list = make_slice;
          (list, result) = Find_slice (db dao) new_stmt list d
      in if Error result \<noteq> None \<or> RowsAffected result = 0 then (list, returned result)
         else (list, None))"

definition GetConditions :: "('d, 'm) Dao \<Rightarrow> any \<Rightarrow> any list \<Rightarrow> 'd \<Rightarrow> 'm slice \<times> error option" where
  "GetConditions dao query args d =
     (let list = make_slice;
          (list, result) = Find_slice (db dao) (Where query args new_stmt) list d
      in if Error result \<noteq> None \<or> RowsAffected result = 0 then (list, returned result)
         else (list, None))"

definition GetConditionsLimit :: "('d, 'm) Dao \<Rightarrow> int \<Rightarrow> any \<Rightarrow> any list \<Rightarrow> 'd
    \<Rightarrow> 'm slice \<times> error option" where
  "GetConditionsLimit dao maxCount query args d =
     (let list = make_slice
      in if maxCount > 0 then
           (let (list, result) =
                  Find_slice (db dao) (Limit maxCount (Where query args new_stmt)) list d
            in if Error result \<noteq> None \<or> RowsAffected result = 0 then (list, returned result)
               else (list, None))
         else
           (let (list, result) = Find_slice (db dao) (Where query args new_stmt) list d
            in if Error result \<noteq> None \<or> RowsAffected result = 0 then (list, returned result)
               else (list, None)))"

section \<open>An engine to run the operations on\<close>

text \<open>
  A small engine over one table kept as the list of its rows in storage order, to run
  the operations on explicit inputs. A write of a row that fails the constraint \<open>ok\<close>,
  or an insert of a primary key already stored, reports an error and changes nothing.
  Of the conditions it knows \<^verbatim>\<open>id = ?\<close> and \<^verbatim>\<open>id > ?\<close>. \<open>tables\<close> are the names of the
  tables that exist, \<open>issued\<close> the schema operations that were run.
\<close>

record 'm store =
  tables :: "string list"
  rows :: "'m list"
  issued :: "string list"

definition ok_result :: "int \<Rightarrow> result" where
  "ok_result n = \<lparr>Error = None, RowsAffected = n\<rparr>"

definition failed :: "string \<Rightarrow> result" where
  "failed msg = \<lparr>Error = Some msg, RowsAffected = 0\<rparr>"

definition has_id :: "64 word \<Rightarrow> 'z DbSimple_scheme list \<Rightarrow> bool" where
  "has_id i rs = (i \<in> set (map Id' rs))"

definition store_create :: "('z DbSimple_scheme \<Rightarrow> bool) \<Rightarrow> 'z DbSimple_scheme
    \<Rightarrow> ('z DbSimple_scheme) store \<Rightarrow> result \<times> ('z DbSimple_scheme) store" where
  "store_create ok m d =
     (if \<not> ok m then (failed ''constraint failed'', d)
      else if has_id (Id' m) (rows d) then (failed ''UNIQUE constraint failed'', d)
      else (ok_result 1, d\<lparr>rows := rows d @ [m]\<rparr>))"

definition store_updates :: "('z DbSimple_scheme \<Rightarrow> bool) \<Rightarrow> 'z DbSimple_scheme
    \<Rightarrow> ('z DbSimple_scheme) store \<Rightarrow> result \<times> ('z DbSimple_scheme) store" where
  "store_updates ok m d =
     (if \<not> ok m then (failed ''constraint failed'', d)
      else (ok_result (int (length (filter (\<lambda>r. Id' r = Id' m) (rows d)))),
            d\<lparr>rows := map (\<lambda>r. if Id' r = Id' m then m else r) (rows d)\<rparr>))"

definition store_save :: "('z DbSimple_scheme \<Rightarrow> bool) \<Rightarrow> 'z DbSimple_scheme
    \<Rightarrow> ('z DbSimple_scheme) store \<Rightarrow> result \<times> ('z DbSimple_scheme) store" where
  "store_save ok m d =
     (if \<not> ok m then (failed ''constraint failed'', d)
      else if has_id (Id' m) (rows d)
        then (ok_result 1, d\<lparr>rows := map (\<lambda>r. if Id' r = Id' m then m else r) (rows d)\<rparr>)
      else (ok_result 1, d\<lparr>rows := rows d @ [m]\<rparr>))"

text \<open>
  The conditions the engine can parse, what each says of a row, and the rows that meet
  all the conditions of a statement (\<open>None\<close> when one of them cannot be parsed).
\<close>

fun cond_known :: "any \<times> any list \<Rightarrow> bool" where
  "cond_known (Str q, [Uint64 i]) = (q = ''id = ?'' \<or> q = ''id > ?'')"
| "cond_known c = False"

fun cond_holds :: "any \<times> any list \<Rightarrow> 'z DbSimple_scheme \<Rightarrow> bool" where
  "cond_holds (Str q, [Uint64 i]) r =
     (if q = ''id = ?'' then Id' r = i
      else if q = ''id > ?'' then i < Id' r
      else False)"
| "cond_holds c r = False"

definition matching :: "(any \<times> any list) list \<Rightarrow> 'z DbSimple_scheme list
    \<Rightarrow> 'z DbSimple_scheme list option" where
  "matching cs rs =
     (if list_all cond_known cs then Some (filter (\<lambda>r. list_all (\<lambda>c. cond_holds c r) cs) rs)
      else None)"

definition store_delete :: "stmt \<Rightarrow> ('z DbSimple_scheme) store
    \<Rightarrow> result \<times> ('z DbSimple_scheme) store" where
  "store_delete s d =
     (case matching (conds s) (rows d) of
        None \<Rightarrow> (failed ''syntax error'', d)
      | Some hit \<Rightarrow>
          (ok_result (int (length hit)), d\<lparr>rows := filter (\<lambda>r. r \<notin> set hit) (rows d)\<rparr>))"

definition window :: "stmt \<Rightarrow> 'a list \<Rightarrow> 'a list" where
  "window s rs =
     (let rs = (case offset s of None \<Rightarrow> rs | Some k \<Rightarrow> drop (nat k) rs)
      in case limit s of None \<Rightarrow> rs | Some n \<Rightarrow> take (nat n) rs)"

definition store_find :: "stmt \<Rightarrow> ('z DbSimple_scheme) store
    \<Rightarrow> 'z DbSimple_scheme list option \<times> result" where
  "store_find s d =
     (case matching (conds s) (rows d) of
        None \<Rightarrow> (None, failed ''syntax error'')
      | Some hit \<Rightarrow> (Some (window s hit), ok_result (int (length (window s hit)))))"

text \<open>
  \<^verbatim>\<open>AutoMigrate\<close> works on the table that the naming strategy \<open>naming\<close> derives from the
  type name: it creates the table if it is not there, and is recorded as run either way.
  \<^verbatim>\<open>HasTable\<close> with a string asks for a table of exactly that name.
\<close>

definition store_automigrate :: "(string \<Rightarrow> string) \<Rightarrow> 'm type_T \<Rightarrow> 'm store
    \<Rightarrow> string option \<times> 'm store" where
  "store_automigrate naming t d =
     (None, d\<lparr>tables := (if naming (Name t) \<in> set (tables d) then tables d
                           else naming (Name t) # tables d),
               issued := issued d @ [''AutoMigrate '' @ naming (Name t)]\<rparr>)"

text \<open>
  Its transactions run the callback on the contents; they keep what the callback
  produced when it returns \<^verbatim>\<open>nil\<close> and put the contents back when it returns an error.
\<close>

definition store_transaction :: "('d \<Rightarrow> error option \<times> 'd) \<Rightarrow> 'd \<Rightarrow> error option \<times> 'd" where
  "store_transaction fc d =
     (case fc d of
        (None, d') \<Rightarrow> (None, d')
      | (Some err, d') \<Rightarrow> (Some err, d))"

text \<open>
  \<open>store_engine\<close> is the engine under \<^verbatim>\<open>NoLowerCase = true\<close>, where the naming strategy
  keeps the type name as the table name.
\<close>

definition store_engine :: "('z DbSimple_scheme \<Rightarrow> bool)
    \<Rightarrow> (('z DbSimple_scheme) store, 'z DbSimple_scheme) DB" where
  "store_engine ok =
     \<lparr>Create_exec = store_create ok, Updates_exec = store_updates ok,
      Save_exec = store_save ok, Delete_exec = store_delete, Find_exec = store_find,
      HasTable = (\<lambda>name d. name \<in> set (tables d)), AutoMigrate = store_automigrate (\<lambda>name. name),
      Transaction = store_transaction\<rparr>"

text \<open>The values used in the examples.\<close>

definition simple :: "64 word \<Rightarrow> DateTime \<Rightarrow> DbSimple" where
  "simple i t = \<lparr>Id' = i, LastTime = t\<rparr>"

definition T_DbSimple :: "DbSimple type_T" where
  "T_DbSimple = \<lparr>Name = ''DbSimple'', new = simple 0 zero_time\<rparr>"

definition empty_store :: "DbSimple store" where
  "empty_store = \<lparr>tables = [''DbSimple''], rows = [], issued = []\<rparr>"

definition dao0 :: "(DbSimple store, DbSimple) Dao" where
  "dao0 = \<lparr>db = store_engine (\<lambda>m. True), T = T_DbSimple\<rparr>"

text \<open>A repository whose table rejects the primary key 0, two timestamps and a clock reading.\<close>

definition strict_dao :: "(DbSimple store, DbSimple) Dao" where
  "strict_dao = \<lparr>db = store_engine (\<lambda>m. Id' m \<noteq> 0), T = T_DbSimple\<rparr>"

definition jan1 :: DateTime where
  "jan1 = ''2024-01-01 00:00:00''"

definition jan2 :: DateTime where
  "jan2 = ''2024-01-02 00:00:00''"

definition noon :: DateTime where
  "noon = ''2024-05-01 12:00:00''"

text \<open>Contents with four rows.\<close>

definition four_rows :: "DbSimple store" where
  "four_rows = empty_store\<lparr>rows := [simple 1 jan1, simple 2 jan2, simple 3 jan1, simple 4 jan2]\<rparr>"

text \<open>
  The engine under \<^verbatim>\<open>NoLowerCase = false\<close>: the naming strategy turns the type name
  \<^verbatim>\<open>DbSimple\<close> into the table name \<^verbatim>\<open>db_simple\<close>. \<open>snake_store\<close> holds that table already.
\<close>

definition snake_name :: "string \<Rightarrow> string" where
  "snake_name name = (if name = ''DbSimple'' then ''db_simple'' else name)"

definition snake_engine :: "(DbSimple store, DbSimple) DB" where
  "snake_engine =
     (store_engine (\<lambda>m. True))\<lparr>AutoMigrate := store_automigrate snake_name\<rparr>"

definition snake_store :: "DbSimple store" where
  "snake_store = \<lparr>tables = [''db_simple''], rows = [], issued = []\<rparr>"

text \<open>
  Engines whose hooks fail after the statement has run: gorm calls a model's
  \<^verbatim>\<open>AfterUpdate\<close>, \<^verbatim>\<open>AfterSave\<close> and \<^verbatim>\<open>AfterFind\<close> methods once the rows are written or
  scanned and adds the error they return to the result. The last engine cannot create
  tables.
\<close>

definition after_update_fails :: "(DbSimple store, DbSimple) DB" where
  "after_update_fails =
     (store_engine (\<lambda>m. True))
       \<lparr>Updates_exec := (\<lambda>m d. case store_updates (\<lambda>m. True) m d of
           (r, d') \<Rightarrow> (r\<lparr>Error := Some ''AfterUpdate hook failed''\<rparr>, d'))\<rparr>"

definition after_save_fails :: "(DbSimple store, DbSimple) DB" where
  "after_save_fails =
     (store_engine (\<lambda>m. True))
       \<lparr>Save_exec := (\<lambda>m d. case store_save (\<lambda>m. True) m d of
           (r, d') \<Rightarrow> (r\<lparr>Error := Some ''AfterSave hook failed''\<rparr>, d'))\<rparr>"

definition after_find_fails :: "(DbSimple store, DbSimple) DB" where
  "after_find_fails =
     (store_engine (\<lambda>m. True))
       \<lparr>Find_exec := (\<lambda>s d. case store_find s d of
           (found, r) \<Rightarrow> (found, r\<lparr>Error := Some ''AfterFind hook failed''\<rparr>))\<rparr>"

definition migrate_fails :: "(DbSimple store, DbSimple) DB" where
  "migrate_fails =
     (store_engine (\<lambda>m. True))\<lparr>AutoMigrate := (\<lambda>t d. (Some ''permission denied'', d))\<rparr>"

section \<open>Opening the connection\<close>

record config =
  OpenLog :: bool
  SkipDefaultTransaction :: bool
  NoLowerCase :: bool

record setting =
  Connect :: string
  Config :: config

definition zero_setting :: setting where
  "zero_setting =
     \<lparr>Connect = [], Config = \<lparr>OpenLog = False, SkipDefaultTransaction = False, NoLowerCase = False\<rparr>\<rparr>"

text \<open>The \<^verbatim>\<open>gorm.Config\<close> that \<^verbatim>\<open>NewDb\<close> builds, and the dialector of each backend.\<close>

record gorm_Config =
  SingularTable :: bool
  Naming_NoLowerCase :: bool
  Skip_Default_Transaction :: bool
  Logger_Info :: bool

datatype dialector =
  sqlite_Open string | sqlserver_Open string | mysql_Open string | postgres_Open string

text \<open>
  What \<^verbatim>\<open>NewDb\<close> reads from its surroundings. \<open>baseCfg\<close> is the module name of
  \<^verbatim>\<open>GetModuleInfo\<close>, or \<open>None\<close> when \<^verbatim>\<open>SetBaseConfig\<close> was never called. \<open>viper_Get\<close> is
  the configuration lookup. \<open>decode\<close> is \<^verbatim>\<open>json.Marshal\<close> followed by
  \<^verbatim>\<open>json.Unmarshal\<close> into the setting. \<open>Exec\<close> runs a statement on an open connection
  \<open>'c\<close>. The default configuration block that \<^verbatim>\<open>NewDb\<close> writes back with
  \<^verbatim>\<open>qconfig.TrySave\<close> is a file effect that is not modelled.
\<close>

datatype decoded = Marshal_error | Unmarshal_error | Decoded setting

record ('v, 'c) env =
  baseCfg :: "string option"
  viper_Get :: "string \<Rightarrow> 'v option"
  decode :: "'v \<Rightarrow> decoded"
  GetFullPath :: "string \<Rightarrow> string"
  CreateDirectory :: "string \<Rightarrow> string option"
  gorm_Open :: "dialector \<Rightarrow> gorm_Config \<Rightarrow> string + 'c"
  Exec :: "string \<Rightarrow> 'c \<Rightarrow> 'c"

text \<open>
  \<^verbatim>\<open>strings.Split(s, sep)\<close> for a separator of one byte, as both calls of \<^verbatim>\<open>NewDb\<close> are:
  the pieces of \<open>s\<close> between the separators, one more than there are separators.
\<close>

fun Split :: "string \<Rightarrow> char \<Rightarrow> string list" where
  "Split [] sep = [[]]"
| "Split (c # s) sep =
     (if c = sep then [] # Split s sep
      else (case Split s sep of [] \<Rightarrow> [[c]] | w # ws \<Rightarrow> (c # w) # ws))"

text \<open>\<^verbatim>\<open>xs[i]\<close>: \<open>None\<close> is the runtime panic "index out of range".\<close>

definition index :: "'a list \<Rightarrow> nat \<Rightarrow> 'a option" where
  "index xs i = (if i < length xs then Some (xs ! i) else None)"

text \<open>
  A call of \<^verbatim>\<open>NewDb\<close> returns a connection, returns \<^verbatim>\<open>nil\<close>, or panics: with an error
  value (\<^verbatim>\<open>panic(err)\<close>) or with the runtime's index error.
\<close>

datatype panic_value = error_value string | index_out_of_range

datatype 'c outcome = Return "'c option" | Panic panic_value

text \<open>Lines 53 to 98: the setting, or \<open>None\<close> where the code returns \<^verbatim>\<open>nil\<close>.\<close>

definition load_setting :: "('v, 'c) env \<Rightarrow> string \<Rightarrow> string \<Rightarrow> setting option" where
  "load_setting e moduleName section =
     (let setting = zero_setting
      in case viper_Get e (moduleName @ ''.'' @ section) of
           None \<Rightarrow>
             (case viper_Get e section of
                None \<Rightarrow>
                  Some (setting\<lparr>Connect := ''sqlite|./db/data.db&OFF'',
                                Config := (Config setting)\<lparr>SkipDefaultTransaction := True,
                                                           NoLowerCase := True\<rparr>\<rparr>)
              | Some cfg \<Rightarrow>
                  (case decode e cfg of
                     Marshal_error \<Rightarrow> Some setting
                   | Unmarshal_error \<Rightarrow> None
                   | Decoded st \<Rightarrow> Some st))
         | Some cfg \<Rightarrow>
             (case decode e cfg of
                Marshal_error \<Rightarrow> Some setting
              | Unmarshal_error \<Rightarrow> None
              | Decoded st \<Rightarrow> Some st))"

text \<open>
  Lines 99 to 156. The \<^verbatim>\<open>switch\<close> leaves \<^verbatim>\<open>db\<close> unset (\<open>Inr None\<close>) when no case matches,
  and the test \<^verbatim>\<open>db == nil\<close> after it panics with "unknown db type".
\<close>

definition connect :: "('v, 'c) env \<Rightarrow> setting \<Rightarrow> 'c outcome" where
  "connect e setting =
     (let gc = \<lparr>SingularTable = True,
                Naming_NoLowerCase = NoLowerCase (Config setting),
                Skip_Default_Transaction = SkipDefaultTransaction (Config setting),
                Logger_Info = OpenLog (Config setting)\<rparr>;
          sp = Split (Connect setting) CHR ''|'';
          db =
            (case index sp 0 of
               None \<Rightarrow> Inl index_out_of_range
             | Some kind \<Rightarrow>
                 if kind = ''sqlite'' then
                   (case index sp 1 of
                      None \<Rightarrow> Inl index_out_of_range
                    | Some param \<Rightarrow>
                        (let spp = Split param CHR ''&''
                         in case index spp 0 of
                              None \<Rightarrow> Inl index_out_of_range
                            | Some path \<Rightarrow>
                                (let file = GetFullPath e path
                                 in case CreateDirectory e file of
                                      Some err \<Rightarrow> Inl (error_value err)
                                    | None \<Rightarrow>
                                        (case gorm_Open e (sqlite_Open file) gc of
                                           Inl err \<Rightarrow> Inl (error_value err)
                                         | Inr c \<Rightarrow>
                                             (case index spp 1 of
                                                None \<Rightarrow> Inl index_out_of_range
                                              | Some mode \<Rightarrow>
                                                  if mode \<noteq> [] then
                                                    Inr (Some (Exec e
                                                      (''PRAGMA journal_mode = '' @ mode @ '';'') c))
                                                  else Inr (Some c))))))
                 else if kind = ''sqlserver'' then
                   (case index sp 1 of
                      None \<Rightarrow> Inl index_out_of_range
                    | Some param \<Rightarrow>
                        (case gorm_Open e (sqlserver_Open (''sqlserver://'' @ param)) gc of
                           Inl err \<Rightarrow> Inl (error_value err)
                         | Inr c \<Rightarrow> Inr (Some c)))
                 else if kind = ''mysql'' then
                   (case index sp 1 of
                      None \<Rightarrow> Inl index_out_of_range
                    | Some dsn \<Rightarrow>
                        (case gorm_Open e (mysql_Open dsn) gc of
                           Inl err \<Rightarrow> Inl (error_value err)
                         | Inr c \<Rightarrow> Inr (Some c)))
                 else if kind = ''postgres'' then
                   (case index sp 1 of
                      None \<Rightarrow> Inl index_out_of_range
                    | Some dsn \<Rightarrow>
                        (case gorm_Open e (postgres_Open dsn) gc of
                           Inl err \<Rightarrow> Inl (error_value err)
                         | Inr c \<Rightarrow> Inr (Some c)))
                 else Inr None)
      in case db of
           Inl p \<Rightarrow> Panic p
         | Inr None \<Rightarrow> Panic (error_value ''unknown db type'')
         | Inr (Some c) \<Rightarrow> Return (Some c))"

definition NewDb :: "('v, 'c) env \<Rightarrow> string \<Rightarrow> 'c outcome" where
  "NewDb e section =
     (case baseCfg e of
        None \<Rightarrow> Panic (error_value ''base config not set, please call SetBaseConfig first'')
      | Some moduleName \<Rightarrow>
          (case load_setting e moduleName section of
             None \<Rightarrow> Return None
           | Some setting \<Rightarrow> connect e setting))"

text \<open>
  Surroundings for the examples: the section \<^verbatim>\<open>app.db\<close> holds the given connection
  string, every directory can be created, every backend opens, and a connection is the
  list of what was done on it.
\<close>

definition env_of :: "string \<Rightarrow> (setting, string list) env" where
  "env_of conn =
     \<lparr>baseCfg = Some ''app'',
      viper_Get = (\<lambda>key. if key = ''app.db''
                          then Some (zero_setting\<lparr>Connect := conn\<rparr>) else None),
      decode = Decoded,
      GetFullPath = (\<lambda>path. ''/srv/'' @ path),
      CreateDirectory = (\<lambda>file. None),
      gorm_Open = (\<lambda>dia gc. Inr [''open'']),
      Exec = (\<lambda>sql c. c @ [sql])\<rparr>"

section \<open>Notions used by the statements\<close>

text \<open>What a single write submits: the model with its timestamp filled in if it was unset.\<close>

definition stamp :: "DateTime \<Rightarrow> 'z DbSimple_scheme \<Rightarrow> 'z DbSimple_scheme" where
  "stamp now model = (if LastTime model = zero_time then model\<lparr>LastTime := now\<rparr> else model)"

text \<open>
  Running the writes \<open>w\<close> of a batch one after the other: the error of the first write
  that fails, and the contents after all of them.
\<close>

fun first_failure :: "('m \<Rightarrow> 'd \<Rightarrow> result \<times> 'd) \<Rightarrow> 'm list \<Rightarrow> 'd \<Rightarrow> string option" where
  "first_failure w [] d = None"
| "first_failure w (m # ms) d =
     (case Error (fst (w m d)) of
        Some e \<Rightarrow> Some e
      | None \<Rightarrow> first_failure w ms (snd (w m d)))"

fun write_all :: "('m \<Rightarrow> 'd \<Rightarrow> result \<times> 'd) \<Rightarrow> 'm list \<Rightarrow> 'd \<Rightarrow> 'd" where
  "write_all w [] d = d"
| "write_all w (m # ms) d = write_all w ms (snd (w m d))"

text \<open>The rows a query scanned, and \<^verbatim>\<open>len\<close> of a slice.\<close>

definition scanned :: "'m list option \<Rightarrow> 'm list" where
  "scanned found = (case found of None \<Rightarrow> [] | Some rs \<Rightarrow> rs)"

definition len :: "'a slice \<Rightarrow> nat" where
  "len s = (case s of nil \<Rightarrow> 0 | Slice xs \<Rightarrow> length xs)"

definition elems :: "'a slice \<Rightarrow> 'a list" where
  "elems s = (case s of nil \<Rightarrow> [] | Slice xs \<Rightarrow> xs)"

text \<open>
  Four properties of an engine. A query answers its conditions, given the rows
  \<open>table d\<close> of the contents and what a condition says of a row (\<open>holds\<close>): every row it
  scans is a row of the table that meets all the conditions of the statement, and a
  query without limit and offset that reports no error scans exactly the rows of the
  table that meet them. A query with \<^verbatim>\<open>LIMIT n\<close> scans at most \<open>n\<close> rows. A
  delete that succeeded, run again on the contents it left, succeeds and leaves them as
  they are. A transaction commits when its callback returns \<^verbatim>\<open>nil\<close>, keeping the
  contents the callback produced, and rolls back when the callback returns an error,
  returning that error with the contents as they were before.
\<close>

definition transactional :: "('d, 'm) DB \<Rightarrow> bool" where
  "transactional g =
     (\<forall>fc d. Transaction g fc d =
        (case fc d of
           (None, d') \<Rightarrow> (None, d')
         | (Some err, d') \<Rightarrow> (Some err, d)))"

definition answers :: "('d, 'm) DB \<Rightarrow> ('d \<Rightarrow> 'm list) \<Rightarrow> (any \<times> any list \<Rightarrow> 'm \<Rightarrow> bool) \<Rightarrow> bool" where
  "answers g table holds =
     (\<forall>s d found r. Find_exec g s d = (found, r) \<longrightarrow>
        (\<forall>rs. found = Some rs \<longrightarrow>
           (\<forall>row \<in> set rs. row \<in> set (table d) \<and> (\<forall>c \<in> set (conds s). holds c row)))
        \<and> (Error r = None \<and> limit s = None \<and> offset s = None \<longrightarrow>
             found = Some (filter (\<lambda>row. \<forall>c \<in> set (conds s). holds c row) (table d))))"

definition honours_limit :: "('d, 'm) DB \<Rightarrow> bool" where
  "honours_limit g =
     (\<forall>s d n found r. limit s = Some n \<and> 0 < n \<and> Find_exec g s d = (Some found, r)
        \<longrightarrow> int (length found) \<le> n)"

definition delete_settles :: "('d, 'm) DB \<Rightarrow> bool" where
  "delete_settles g =
     (\<forall>s d r d'. Delete_exec g s d = (r, d') \<and> Error r = None
        \<longrightarrow> Error (fst (Delete_exec g s d')) = None \<and> snd (Delete_exec g s d') = d')"

text \<open>The connection kinds \<^verbatim>\<open>NewDb\<close> knows.\<close>

definition kinds :: "string list" where
  "kinds = [''sqlite'', ''sqlserver'', ''mysql'', ''postgres'']"

section \<open>What the writes submit and return\<close>

lemmas accessor_defs = stamp_def Get_LastTime_def Set_LastTime_def qreflect_New_def

lemma Create_unfold:
  "Create dao now model d =
     (case Create_exec (db dao) (stamp now model) d of (r, d') \<Rightarrow>
        (returned r, stamp now model, d'))"
  by (simp add: Create_def Let_def accessor_defs split: prod.splits)

lemma Save_unfold:
  "Save dao now model d =
     (case Save_exec (db dao) (stamp now model) d of (r, d') \<Rightarrow>
        (returned r, stamp now model, d'))"
  by (simp add: Save_def Let_def accessor_defs split: prod.splits)

lemma Update_unfold:
  "Update dao now model d =
     (case Updates_exec (db dao) (stamp now model) d of (r, d') \<Rightarrow>
        (if RowsAffected r > 0 then None
         else if Error r \<noteq> None then returned r
         else Some (errors_New ''update record does not exist''), stamp now model, d'))"
  by (simp add: Update_def Let_def accessor_defs split: prod.splits)

lemma stamp_not_zero: "now \<noteq> zero_time \<Longrightarrow> LastTime (stamp now model) \<noteq> zero_time"
  by (simp add: stamp_def)

lemma stamp_keeps: "LastTime model \<noteq> zero_time \<Longrightarrow> stamp now model = model"
  by (simp add: stamp_def)

lemma CreateList_fc_error:
  "fst (CreateList_fc tx now list d) = map_option EngineError (first_failure (Create_exec tx) list d)"
  by (induction list arbitrary: d)
     (auto simp: Let_def returned_def split: prod.splits option.splits)

lemma CreateList_fc_contents:
  "first_failure (Create_exec tx) list d = None \<Longrightarrow>
   snd (CreateList_fc tx now list d) = write_all (Create_exec tx) list d"
  by (induction list arbitrary: d)
     (auto simp: Let_def returned_def split: prod.splits option.splits)

lemma UpdateList_fc_error:
  "fst (UpdateList_fc tx now list d) = map_option EngineError (first_failure (Updates_exec tx) list d)"
  by (induction list arbitrary: d)
     (auto simp: Let_def returned_def split: prod.splits option.splits)

lemma UpdateList_fc_contents:
  "first_failure (Updates_exec tx) list d = None \<Longrightarrow>
   snd (UpdateList_fc tx now list d) = write_all (Updates_exec tx) list d"
  by (induction list arbitrary: d)
     (auto simp: Let_def returned_def split: prod.splits option.splits)

lemma SaveList_fc_error:
  "fst (SaveList_fc tx now list d) = map_option EngineError (first_failure (Save_exec tx) list d)"
  by (induction list arbitrary: d)
     (auto simp: Let_def returned_def split: prod.splits option.splits)

lemma SaveList_fc_contents:
  "first_failure (Save_exec tx) list d = None \<Longrightarrow>
   snd (SaveList_fc tx now list d) = write_all (Save_exec tx) list d"
  by (induction list arbitrary: d)
     (auto simp: Let_def returned_def split: prod.splits option.splits)

lemma Transaction_run:
  assumes "transactional g"
    and "fst (fc d) = map_option EngineError x"
    and "x = None \<Longrightarrow> snd (fc d) = d1"
  shows "Transaction g fc d = (case x of None \<Rightarrow> (None, d1) | Some e \<Rightarrow> (Some (EngineError e), d))"
proof -
  from assms(1) have "Transaction g fc d =
      (case fc d of (None, d') \<Rightarrow> (None, d') | (Some err, d') \<Rightarrow> (Some err, d))"
    unfolding transactional_def by blast
  with assms(2,3) show ?thesis
    by (cases "fc d") (auto split: option.splits)
qed

lemma store_transactional: "transactional (store_engine ok)"
  by (simp add: transactional_def store_engine_def store_transaction_def)

lemma batch_fc_clock:
  "CreateList_fc tx now list = CreateList_fc tx now' list"
  "UpdateList_fc tx now list = UpdateList_fc tx now' list"
  "SaveList_fc tx now list = SaveList_fc tx now' list"
proof -
  have "CreateList_fc tx now list d = CreateList_fc tx now' list d" for d
    by (induction list arbitrary: d) (simp_all add: Let_def split: prod.splits)
  then show "CreateList_fc tx now list = CreateList_fc tx now' list" by (rule ext)
  have "UpdateList_fc tx now list d = UpdateList_fc tx now' list d" for d
    by (induction list arbitrary: d) (simp_all add: Let_def split: prod.splits)
  then show "UpdateList_fc tx now list = UpdateList_fc tx now' list" by (rule ext)
  have "SaveList_fc tx now list d = SaveList_fc tx now' list d" for d
    by (induction list arbitrary: d) (simp_all add: Let_def split: prod.splits)
  then show "SaveList_fc tx now list = SaveList_fc tx now' list" by (rule ext)
qed

lemma CreateList_run:
  "transactional (db dao) \<Longrightarrow> CreateList dao now list d =
     (case first_failure (Create_exec (db dao)) list d of
        None \<Rightarrow> (None, write_all (Create_exec (db dao)) list d)
      | Some e \<Rightarrow> (Some (EngineError e), d))"
  unfolding CreateList_def by (rule Transaction_run) (simp_all add: CreateList_fc_error CreateList_fc_contents)

lemma UpdateList_run:
  "transactional (db dao) \<Longrightarrow> UpdateList dao now list d =
     (case first_failure (Updates_exec (db dao)) list d of
        None \<Rightarrow> (None, write_all (Updates_exec (db dao)) list d)
      | Some e \<Rightarrow> (Some (EngineError e), d))"
  unfolding UpdateList_def by (rule Transaction_run) (simp_all add: UpdateList_fc_error UpdateList_fc_contents)

lemma SaveList_run:
  "transactional (db dao) \<Longrightarrow> SaveList dao now list d =
     (case first_failure (Save_exec (db dao)) list d of
        None \<Rightarrow> (None, write_all (Save_exec (db dao)) list d)
      | Some e \<Rightarrow> (Some (EngineError e), d))"
  unfolding SaveList_def by (rule Transaction_run) (simp_all add: SaveList_fc_error SaveList_fc_contents)

text \<open>Evaluating the example engine.\<close>

lemmas store_defs =
  store_engine_def store_create_def store_updates_def store_save_def store_delete_def
  store_find_def store_automigrate_def matching_def window_def has_id_def ok_result_def failed_def
  store_transaction_def simple_def empty_store_def dao0_def strict_dao_def T_DbSimple_def zero_time_def
  jan1_def jan2_def noon_def new_stmt_def
  Where_def Limit_def Offset_def

section \<open>Batch writes are all or nothing\<close>

text \<open>
  Claim C2. \<^verbatim>\<open>CreateList\<close> and \<^verbatim>\<open>SaveList\<close> run every write of the batch inside one
  call of \<^verbatim>\<open>Transaction\<close>. On an engine whose transactions commit and roll back: if a
  write fails, the operation returns the error of the first write that failed and the
  contents are what they were before the call; if no write fails, it returns \<^verbatim>\<open>nil\<close>
  and the contents are those after all the writes.
\<close>

theorem batch_all_or_nothing:
  assumes "transactional (db dao)"
  shows "(first_failure (Create_exec (db dao)) list d = Some e \<longrightarrow>
      CreateList dao now list d = (Some (EngineError e), d))
   \<and> (first_failure (Create_exec (db dao)) list d = None \<longrightarrow>
      CreateList dao now list d = (None, write_all (Create_exec (db dao)) list d))
   \<and> (first_failure (Save_exec (db dao)) list d = Some e' \<longrightarrow>
      SaveList dao now list d = (Some (EngineError e'), d))
   \<and> (first_failure (Save_exec (db dao)) list d = None \<longrightarrow>
      SaveList dao now list d = (None, write_all (Save_exec (db dao)) list d))"
  using assms by (simp add: CreateList_run SaveList_run)

theorem batch_all_or_nothing_witness:
  "CreateList dao0 noon [simple 1 jan1, simple 1 jan2] empty_store
     = (Some (EngineError ''UNIQUE constraint failed''), empty_store)
   \<and> CreateList dao0 noon [simple 1 jan1, simple 2 jan2] empty_store
     = (None, empty_store\<lparr>rows := [simple 1 jan1, simple 2 jan2]\<rparr>)
   \<and> SaveList strict_dao noon [simple 1 jan1, simple 0 jan2] empty_store
     = (Some (EngineError ''constraint failed''), empty_store)
   \<and> SaveList strict_dao noon [simple 1 jan1, simple 1 jan2] empty_store
     = (None, empty_store\<lparr>rows := [simple 1 jan2]\<rparr>)"
proof -
  have t: "transactional (db dao0)" "transactional (db strict_dao)"
    by (simp_all add: dao0_def strict_dao_def store_transactional)
  from batch_all_or_nothing [OF t(1), where list = "[simple 1 jan1, simple 1 jan2]"
         and d = empty_store and e = "''UNIQUE constraint failed''" and now = noon]
       batch_all_or_nothing [OF t(1), where list = "[simple 1 jan1, simple 2 jan2]"
         and d = empty_store and now = noon]
       batch_all_or_nothing [OF t(2), where list = "[simple 1 jan1, simple 0 jan2]"
         and d = empty_store and e' = "''constraint failed''" and now = noon]
       batch_all_or_nothing [OF t(2), where list = "[simple 1 jan1, simple 1 jan2]"
         and d = empty_store and now = noon]
  show ?thesis
    by (simp add: store_defs)
qed

section \<open>The timestamp on writes\<close>

text \<open>
  The single writes submit the stamped model: \<^verbatim>\<open>Create\<close>, \<^verbatim>\<open>Update\<close> and \<^verbatim>\<open>Save\<close> hand
  \<open>stamp now model\<close> to the engine and leave it in the caller's model. The batch writes
  do not depend on the clock at all: what they hand to the engine is each element as
  it came.
\<close>

lemma batch_ignores_clock:
  "CreateList dao now list d = CreateList dao now' list d"
  "UpdateList dao now list d = UpdateList dao now' list d"
  "SaveList dao now list d = SaveList dao now' list d"
  using batch_fc_clock [of "db dao" now list now']
  by (simp_all add: CreateList_def UpdateList_def SaveList_def)

lemma single_writes_stamp:
  "Create dao now model d =
     (returned (fst (Create_exec (db dao) (stamp now model) d)), stamp now model,
      snd (Create_exec (db dao) (stamp now model) d))"
  "Save dao now model d =
     (returned (fst (Save_exec (db dao) (stamp now model) d)), stamp now model,
      snd (Save_exec (db dao) (stamp now model) d))"
  "snd (Update dao now model d) =
     (stamp now model, snd (Updates_exec (db dao) (stamp now model) d))"
  by (simp_all add: Create_unfold Save_unfold Update_unfold split: prod.splits)

text \<open>
  Claim C1. The claim says every write operation, the batch ones included, sets an
  unset \<^verbatim>\<open>LastTime\<close> to the current instant before submitting the write. On a store
  without rows, \<^verbatim>\<open>CreateList\<close> and \<^verbatim>\<open>SaveList\<close> of one model whose \<^verbatim>\<open>LastTime\<close> is the
  zero value persist it with the zero value, while \<^verbatim>\<open>Create\<close> of the same model
  persists the clock reading.
\<close>

theorem batch_writes_unstamped:
  "LastTime (simple 7 zero_time) = zero_time
   \<and> noon \<noteq> zero_time
   \<and> CreateList dao0 noon [simple 7 zero_time] empty_store
       = (None, empty_store\<lparr>rows := [simple 7 zero_time]\<rparr>)
   \<and> SaveList dao0 noon [simple 7 zero_time] empty_store
       = (None, empty_store\<lparr>rows := [simple 7 zero_time]\<rparr>)
   \<and> Create dao0 noon (simple 7 zero_time) empty_store
       = (None, simple 7 noon, empty_store\<lparr>rows := [simple 7 noon]\<rparr>)"
  by (simp add: CreateList_def SaveList_def Create_unfold store_defs stamp_def returned_def
        Let_def)

section \<open>What Update returns\<close>

text \<open>
  By the result of the update it executes: \<^verbatim>\<open>Update\<close> returns \<^verbatim>\<open>nil\<close> when at least one
  row was affected; when no row was affected and the execution reported an error it
  returns that error; when no row was affected and no error was reported it returns
  the error "update record does not exist", which is no error of the engine.
\<close>

lemma Update_returns:
  assumes "Updates_exec (db dao) (stamp now model) d = (r, d')"
  shows "(0 < RowsAffected r \<longrightarrow> fst (Update dao now model d) = None)
       \<and> (RowsAffected r \<le> 0 \<and> Error r = Some e \<longrightarrow>
            fst (Update dao now model d) = Some (EngineError e))
       \<and> (RowsAffected r \<le> 0 \<and> Error r = None \<longrightarrow>
            fst (Update dao now model d) = Some (errors_New ''update record does not exist''))"
  using assms by (auto simp: Update_unfold returned_def)

text \<open>
  Claim C3. The claim says that \<^verbatim>\<open>Update\<close> returns the error whenever the underlying
  execution reports one. On a table that holds row 1, an update of row 1 whose
  \<^verbatim>\<open>AfterUpdate\<close> hook fails reports one affected row and the hook's error: \<^verbatim>\<open>Update\<close>
  returns \<^verbatim>\<open>nil\<close>, while \<^verbatim>\<open>UpdateList\<close> and \<^verbatim>\<open>Save\<close> of the same model on the same
  contents return the error the engine reports.
\<close>

theorem Update_swallows_error:
  "Updates_exec after_update_fails (stamp noon (simple 1 jan2)) (empty_store\<lparr>rows := [simple 1 jan1]\<rparr>)
     = (\<lparr>Error = Some ''AfterUpdate hook failed'', RowsAffected = 1\<rparr>,
        empty_store\<lparr>rows := [simple 1 jan2]\<rparr>)
   \<and> fst (Update \<lparr>db = after_update_fails, T = T_DbSimple\<rparr> noon (simple 1 jan2)
            (empty_store\<lparr>rows := [simple 1 jan1]\<rparr>)) = None
   \<and> fst (UpdateList \<lparr>db = after_update_fails, T = T_DbSimple\<rparr> noon [simple 1 jan2]
            (empty_store\<lparr>rows := [simple 1 jan1]\<rparr>))
       = Some (EngineError ''AfterUpdate hook failed'')
   \<and> fst (Save \<lparr>db = after_save_fails, T = T_DbSimple\<rparr> noon (simple 1 jan2)
            (empty_store\<lparr>rows := [simple 1 jan1]\<rparr>))
       = Some (EngineError ''AfterSave hook failed'')"
  by (simp add: Update_unfold Save_unfold UpdateList_def after_update_fails_def
        after_save_fails_def store_defs stamp_def returned_def Let_def)

section \<open>What UpdateList returns\<close>

text \<open>
  Claim C9. On an engine whose transactions commit and roll back, \<^verbatim>\<open>UpdateList\<close>
  returns \<^verbatim>\<open>nil\<close> whenever no update of the batch reports an error, however many rows
  each of them affected, and it never returns the error "update record does not exist";
  \<^verbatim>\<open>Update\<close> returns that error when its update affects no row and reports no error.
\<close>

theorem UpdateList_no_not_found:
  assumes "transactional (db dao)"
  shows "(first_failure (Updates_exec (db dao)) list d = None \<longrightarrow>
      UpdateList dao now list d = (None, write_all (Updates_exec (db dao)) list d))
   \<and> fst (UpdateList dao now list d) \<noteq> Some (errors_New ''update record does not exist'')
   \<and> (Updates_exec (db dao) (stamp now model) d = (r, d') \<and> Error r = None \<and> RowsAffected r = 0
        \<longrightarrow> fst (Update dao now model d) = Some (errors_New ''update record does not exist''))"
  using assms by (auto simp: UpdateList_run Update_unfold split: option.splits)

theorem UpdateList_no_not_found_witness:
  "UpdateList dao0 noon [simple 1 jan1, simple 2 jan2] empty_store = (None, empty_store)
   \<and> fst (Update dao0 noon (simple 1 jan1) empty_store)
       = Some (errors_New ''update record does not exist'')"
proof -
  have t: "transactional (db dao0)"
    by (simp add: dao0_def store_transactional)
  from UpdateList_no_not_found [OF t, where list = "[simple 1 jan1, simple 2 jan2]"
         and d = empty_store and now = noon and model = "simple 1 jan1"
         and r = "ok_result 0" and d' = empty_store]
  show ?thesis
    by (simp add: store_defs stamp_def)
qed

section \<open>The queries\<close>

lemma Find_slice_make:
  "Find_slice g s make_slice d = (Slice (scanned (fst (Find_exec g s d))), snd (Find_exec g s d))"
  by (simp add: Find_slice_def make_slice_def scanned_def split: prod.splits option.splits)

lemma returned_None: "Error r = None \<Longrightarrow> returned r = None"
  by (simp add: returned_def)

lemma GetList_unfold:
  "GetList dao startId maxCount d =
     (Slice (scanned (fst (Find_exec (db dao) (Offset (sint startId) (Limit maxCount new_stmt)) d))),
      returned (snd (Find_exec (db dao) (Offset (sint startId) (Limit maxCount new_stmt)) d)))"
  by (simp add: GetList_def Let_def Find_slice_make returned_None)

lemma GetAll_unfold:
  "GetAll dao d =
     (Slice (scanned (fst (Find_exec (db dao) new_stmt d))),
      returned (snd (Find_exec (db dao) new_stmt d)))"
  by (simp add: GetAll_def Let_def Find_slice_make returned_None)

lemma GetConditions_unfold:
  "GetConditions dao query args d =
     (Slice (scanned (fst (Find_exec (db dao) (Where query args new_stmt) d))),
      returned (snd (Find_exec (db dao) (Where query args new_stmt) d)))"
  by (simp add: GetConditions_def Let_def Find_slice_make returned_None)

lemma GetConditionsLimit_unfold:
  "GetConditionsLimit dao maxCount query args d =
     (if maxCount > 0 then
        (Slice (scanned (fst (Find_exec (db dao) (Limit maxCount (Where query args new_stmt)) d))),
         returned (snd (Find_exec (db dao) (Limit maxCount (Where query args new_stmt)) d)))
      else GetConditions dao query args d)"
  by (simp add: GetConditionsLimit_def GetConditions_unfold Let_def Find_slice_make returned_None)

text \<open>The example engine has the properties of an engine named above.\<close>

lemma matching_filter:
  fixes rs :: "'z DbSimple_scheme list"
  shows "matching cs rs = Some hit \<Longrightarrow>
    \<exists>P. \<forall>rs' :: 'z DbSimple_scheme list. matching cs rs' = Some (filter P rs')"
proof -
  assume "matching cs rs = Some hit"
  then have "list_all cond_known cs"
    by (simp add: matching_def split: if_splits)
  then have "\<forall>rs' :: 'z DbSimple_scheme list.
      matching cs rs' = Some (filter (\<lambda>r. list_all (\<lambda>c. cond_holds c r) cs) rs')"
    by (simp add: matching_def)
  then show ?thesis by blast
qed

lemma store_delete_settles: "delete_settles (store_engine ok)"
proof -
  have "Error (fst (store_delete s d')) = None \<and> snd (store_delete s d') = d'"
    if h: "store_delete s d = (r, d')" "Error r = None" for s r and d d' :: "('a DbSimple_scheme) store"
  proof (cases "matching (conds s) (rows d)")
    case None
    with h show ?thesis by (simp add: store_delete_def failed_def)
  next
    case (Some hit)
    then obtain P :: "'a DbSimple_scheme \<Rightarrow> bool"
      where P: "\<And>rs' :: 'a DbSimple_scheme list. matching (conds s) rs' = Some (filter P rs')"
      using matching_filter by blast
    have hit: "hit = filter P (rows d)" using Some P by simp
    have d': "d' = d\<lparr>rows := filter (\<lambda>r. \<not> P r) (rows d)\<rparr>"
    proof -
      have "filter (\<lambda>r. r \<notin> set hit) (rows d) = filter (\<lambda>r. \<not> P r) (rows d)"
        unfolding hit by (rule filter_cong) auto
      with h Some show ?thesis by (simp add: store_delete_def)
    qed
    have "filter P (rows d') = []" by (simp add: d')
    then show ?thesis by (simp add: store_delete_def P ok_result_def)
  qed
  then show ?thesis by (auto simp: delete_settles_def store_engine_def)
qed

lemma store_honours_limit: "honours_limit (store_engine ok)"
  by (auto simp: honours_limit_def store_engine_def store_find_def window_def
           split: option.splits)

lemma set_window: "set (window s rs) \<subseteq> set rs"
proof -
  have "set (take n (drop k rs)) \<subseteq> set rs" for n k
    using set_take_subset [of n "drop k rs"] set_drop_subset [of k rs] by blast
  moreover have "set (take n rs) \<subseteq> set rs" for n
    by (rule set_take_subset)
  moreover have "set (drop k rs) \<subseteq> set rs" for k
    by (rule set_drop_subset)
  ultimately show ?thesis
    by (simp add: window_def split: option.splits)
qed

lemma store_find_unknown:
  "\<not> list_all cond_known (conds s) \<Longrightarrow> store_find s d = (None, failed ''syntax error'')"
  by (simp add: store_find_def matching_def)

lemma store_find_known:
  "list_all cond_known (conds s) \<Longrightarrow>
   fst (store_find s d) =
     Some (window s (filter (\<lambda>row. \<forall>c \<in> set (conds s). cond_holds c row) (rows d)))"
  by (simp add: store_find_def matching_def list_all_iff)


lemma store_find_error:
  "list_all cond_known (conds s) \<Longrightarrow> Error (snd (store_find s d)) = None"
  by (simp add: store_find_def matching_def ok_result_def)

lemma window_all: "limit s = None \<Longrightarrow> offset s = None \<Longrightarrow> window s rs = rs"
  by (simp add: window_def)

lemma store_find_answers:
  fixes d :: "('a DbSimple_scheme) store"
  assumes f: "store_find s d = (found, r)"
  shows "(\<forall>rs. found = Some rs \<longrightarrow>
           (\<forall>row \<in> set rs. row \<in> set (rows d) \<and> (\<forall>c \<in> set (conds s). cond_holds c row)))
        \<and> (Error r = None \<and> limit s = None \<and> offset s = None \<longrightarrow>
             found = Some (filter (\<lambda>row. \<forall>c \<in> set (conds s). cond_holds c row) (rows d)))"
proof (cases "list_all cond_known (conds s)")
  case False
  from store_find_unknown [OF False, of d] f
  have "found = None" and "r = failed ''syntax error''"
    by simp_all
  then show ?thesis by (simp add: failed_def)
next
  case True
  from store_find_known [OF True, of d] f
  have found: "found = Some (window s (filter (\<lambda>row. \<forall>c \<in> set (conds s). cond_holds c row) (rows d)))"
    by simp
  have 1: "row \<in> set (rows d) \<and> (\<forall>c \<in> set (conds s). cond_holds c row)"
    if "row \<in> set (window s (filter (\<lambda>row. \<forall>c \<in> set (conds s). cond_holds c row) (rows d)))"
    for row
  proof -
    from that set_window [of s "filter (\<lambda>row. \<forall>c \<in> set (conds s). cond_holds c row) (rows d)"]
    have "row \<in> set (filter (\<lambda>row. \<forall>c \<in> set (conds s). cond_holds c row) (rows d))"
      by blast
    then show ?thesis by simp
  qed
  have A: "\<forall>rs. found = Some rs \<longrightarrow>
           (\<forall>row \<in> set rs. row \<in> set (rows d) \<and> (\<forall>c \<in> set (conds s). cond_holds c row))"
  proof (intro allI impI ballI)
    fix rs row
    assume "found = Some rs" "row \<in> set rs"
    with found have "row \<in> set (window s (filter (\<lambda>row. \<forall>c \<in> set (conds s). cond_holds c row) (rows d)))"
      by simp
    from 1 [OF this] show "row \<in> set (rows d) \<and> (\<forall>c \<in> set (conds s). cond_holds c row)" .
  qed
  have B: "Error r = None \<and> limit s = None \<and> offset s = None \<longrightarrow>
             found = Some (filter (\<lambda>row. \<forall>c \<in> set (conds s). cond_holds c row) (rows d))"
    by (simp add: found window_all)
  from A B show ?thesis by (rule conjI)
qed

lemma store_answers: "answers (store_engine ok) rows cond_holds"
  unfolding answers_def
proof (intro allI impI)
  fix s found r and d :: "('a DbSimple_scheme) store"
  assume "Find_exec (store_engine ok) s d = (found, r)"
  then have "store_find s d = (found, r)"
    by (simp add: store_engine_def)
  then show "(\<forall>rs. found = Some rs \<longrightarrow>
           (\<forall>row \<in> set rs. row \<in> set (rows d) \<and> (\<forall>c \<in> set (conds s). cond_holds c row)))
        \<and> (Error r = None \<and> limit s = None \<and> offset s = None \<longrightarrow>
             found = Some (filter (\<lambda>row. \<forall>c \<in> set (conds s). cond_holds c row) (rows d)))"
    by (rule store_find_answers)
qed

text \<open>
  Claim C4. When the query by id reports no error and a matched row, \<^verbatim>\<open>GetModel\<close>
  returns the row that was scanned, with no error; when it reports no error and no
  row, \<^verbatim>\<open>GetModel\<close> returns \<^verbatim>\<open>nil\<close> for the model and \<^verbatim>\<open>nil\<close> for the error. The error
  returned is always the query's own, so zero matches alone never make one.
\<close>

theorem GetModel_returns:
  assumes "Find_exec (db dao) (Where (Str ''id = ?'') [Uint64 i] new_stmt) d = (found, r)"
  shows "(Error r = None \<and> RowsAffected r \<noteq> 0 \<and> found = Some (row # rest) \<longrightarrow>
            GetModel dao i d = (Some row, None))
       \<and> (Error r = None \<and> RowsAffected r = 0 \<longrightarrow> GetModel dao i d = (None, None))
       \<and> snd (GetModel dao i d) = returned r"
  using assms by (auto simp: GetModel_def Find_struct_def Let_def returned_def split: option.splits list.splits)

theorem GetModel_returns_witness:
  "GetModel dao0 1 (empty_store\<lparr>rows := [simple 1 jan1, simple 2 jan2]\<rparr>) = (Some (simple 1 jan1), None)
   \<and> GetModel dao0 3 (empty_store\<lparr>rows := [simple 1 jan1, simple 2 jan2]\<rparr>) = (None, None)"
  using GetModel_returns [of dao0 1 "empty_store\<lparr>rows := [simple 1 jan1, simple 2 jan2]\<rparr>"
          "Some [simple 1 jan1]" "ok_result 1" "simple 1 jan1" "[]"]
        GetModel_returns [of dao0 3 "empty_store\<lparr>rows := [simple 1 jan1, simple 2 jan2]\<rparr>"
          "Some []" "ok_result 0"]
  by (simp add: store_defs)

text \<open>
  Claim C10, as amended. \<^verbatim>\<open>GetList\<close>, \<^verbatim>\<open>GetAll\<close> and \<^verbatim>\<open>GetConditions\<close> never return a
  \<^verbatim>\<open>nil\<close> slice: they return the slice of the rows the query scanned, which is the empty
  slice when it scanned none, paired with the error the query reported, which is
  \<^verbatim>\<open>nil\<close> when it reported none.
\<close>

theorem list_queries_never_nil:
  "fst (GetList dao startId maxCount d) \<noteq> nil
   \<and> fst (GetAll dao d) \<noteq> nil
   \<and> fst (GetConditions dao query args d) \<noteq> nil
   \<and> GetList dao startId maxCount d =
       (Slice (scanned (fst (Find_exec (db dao) (Offset (sint startId) (Limit maxCount new_stmt)) d))),
        returned (snd (Find_exec (db dao) (Offset (sint startId) (Limit maxCount new_stmt)) d)))
   \<and> GetAll dao d =
       (Slice (scanned (fst (Find_exec (db dao) new_stmt d))),
        returned (snd (Find_exec (db dao) new_stmt d)))
   \<and> GetConditions dao query args d =
       (Slice (scanned (fst (Find_exec (db dao) (Where query args new_stmt) d))),
        returned (snd (Find_exec (db dao) (Where query args new_stmt) d)))"
  by (simp add: GetList_unfold GetAll_unfold GetConditions_unfold)

theorem list_queries_never_nil_witness:
  "GetAll dao0 empty_store = (Slice [], None)
   \<and> GetList dao0 1 1 (empty_store\<lparr>rows := [simple 1 jan1, simple 2 jan2]\<rparr>)
       = (Slice [simple 2 jan2], None)
   \<and> GetConditions dao0 (Str ''name = ?'') [Str ''x''] empty_store
       = (Slice [], Some (EngineError ''syntax error''))"
  using list_queries_never_nil [of dao0 1 1 "empty_store\<lparr>rows := [simple 1 jan1, simple 2 jan2]\<rparr>"
          "Str ''name = ?''" "[Str ''x'']"]
        list_queries_never_nil [of dao0 1 1 empty_store "Str ''name = ?''" "[Str ''x'']"]
  by (simp add: store_defs scanned_def returned_def)

text \<open>
  The claim as first stated has the empty slice returned on every query error. A query
  that reports its error after rows were scanned, here by a hook that fails on the
  rows found, returns those rows with the error.
\<close>

theorem query_error_with_rows_counterexample:
  "Error (snd (Find_exec after_find_fails new_stmt (empty_store\<lparr>rows := [simple 1 jan1]\<rparr>)))
     = Some ''AfterFind hook failed''
   \<and> GetAll \<lparr>db = after_find_fails, T = T_DbSimple\<rparr> (empty_store\<lparr>rows := [simple 1 jan1]\<rparr>)
     = (Slice [simple 1 jan1], Some (EngineError ''AfterFind hook failed''))
   \<and> Slice [simple 1 jan1] \<noteq> Slice []"
  by (simp add: GetAll_unfold after_find_fails_def store_defs scanned_def returned_def)

lemma conds_Where: "conds (Where query args new_stmt) = [(query, args)]"
  by (simp add: Where_def new_stmt_def)

lemma conds_Limit_Where: "conds (Limit n (Where query args new_stmt)) = [(query, args)]"
  by (simp add: Limit_def Where_def new_stmt_def)

lemma answers_rows:
  assumes "answers g table holds"
    and "conds s = [(query, args)]"
  shows "\<forall>row \<in> set (scanned (fst (Find_exec g s d))). holds (query, args) row \<and> row \<in> set (table d)"
proof (cases "Find_exec g s d")
  case (Pair found r)
  show ?thesis
  proof (cases found)
    case None
    with Pair show ?thesis by (simp add: scanned_def)
  next
    case (Some rs)
    from assms(1) Pair Some
    have "\<forall>row \<in> set rs. row \<in> set (table d) \<and> (\<forall>c \<in> set (conds s). holds c row)"
      unfolding answers_def by blast
    with assms(2) Pair Some show ?thesis by (simp add: scanned_def)
  qed
qed

lemma answers_all:
  assumes "answers g table holds"
    and "conds s = [(query, args)]" and "limit s = None" and "offset s = None"
    and "Error (snd (Find_exec g s d)) = None"
  shows "scanned (fst (Find_exec g s d)) = filter (holds (query, args)) (table d)"
proof (cases "Find_exec g s d")
  case (Pair found r)
  with assms(5) have "Error r = None" by simp
  with assms(1,3,4) Pair
  have "found = Some (filter (\<lambda>row. \<forall>c \<in> set (conds s). holds c row) (table d))"
    unfolding answers_def by blast
  with assms(2) Pair show ?thesis by (simp add: scanned_def)
qed

text \<open>
  Claim C8. With \<^verbatim>\<open>maxCount > 0\<close> the query \<^verbatim>\<open>GetConditionsLimit\<close> issues carries the
  predicate and the limit \<^verbatim>\<open>maxCount\<close>, so on an engine that honours limits it returns
  at most \<^verbatim>\<open>maxCount\<close> rows; with \<^verbatim>\<open>maxCount \<le> 0\<close> the query carries the predicate and
  no limit, and the result is that of \<^verbatim>\<open>GetConditions\<close>. On an engine that answers its
  conditions, every row returned is a row of the table that meets the predicate, and
  with \<^verbatim>\<open>maxCount \<le> 0\<close> and no error the rows returned are exactly the rows of the table
  that meet the predicate.
\<close>

theorem GetConditionsLimit_bound:
  "(0 < maxCount \<and> honours_limit (db dao) \<longrightarrow>
      int (len (fst (GetConditionsLimit dao maxCount query args d))) \<le> maxCount)
   \<and> (0 < maxCount \<longrightarrow>
      GetConditionsLimit dao maxCount query args d =
        (Slice (scanned (fst (Find_exec (db dao) (Limit maxCount (Where query args new_stmt)) d))),
         returned (snd (Find_exec (db dao) (Limit maxCount (Where query args new_stmt)) d))))
   \<and> (maxCount \<le> 0 \<longrightarrow>
      GetConditionsLimit dao maxCount query args d = GetConditions dao query args d
      \<and> limit (Where query args new_stmt) = None)
   \<and> (answers (db dao) table holds \<longrightarrow>
      (\<forall>row \<in> set (elems (fst (GetConditionsLimit dao maxCount query args d))).
         holds (query, args) row \<and> row \<in> set (table d)))
   \<and> (answers (db dao) table holds \<and> maxCount \<le> 0
        \<and> snd (GetConditionsLimit dao maxCount query args d) = None \<longrightarrow>
      fst (GetConditionsLimit dao maxCount query args d)
        = Slice (filter (holds (query, args)) (table d)))"
proof -
  have bound: "int (length (scanned (fst (Find_exec (db dao) (Limit maxCount (Where query args new_stmt)) d)))) \<le> maxCount"
    if "0 < maxCount" "honours_limit (db dao)"
  proof (cases "Find_exec (db dao) (Limit maxCount (Where query args new_stmt)) d")
    case (Pair found r)
    show ?thesis
    proof (cases found)
      case None
      with Pair that show ?thesis by (simp add: scanned_def)
    next
      case (Some rs)
      have "limit (Limit maxCount (Where query args new_stmt)) = Some maxCount"
        by (simp add: Limit_def)
      with that Pair Some have "int (length rs) \<le> maxCount"
        unfolding honours_limit_def by blast
      with Pair Some show ?thesis by (simp add: scanned_def)
    qed
  qed
  have old: "(0 < maxCount \<and> honours_limit (db dao) \<longrightarrow>
      int (len (fst (GetConditionsLimit dao maxCount query args d))) \<le> maxCount)
   \<and> (0 < maxCount \<longrightarrow>
      GetConditionsLimit dao maxCount query args d =
        (Slice (scanned (fst (Find_exec (db dao) (Limit maxCount (Where query args new_stmt)) d))),
         returned (snd (Find_exec (db dao) (Limit maxCount (Where query args new_stmt)) d))))
   \<and> (maxCount \<le> 0 \<longrightarrow>
      GetConditionsLimit dao maxCount query args d = GetConditions dao query args d
      \<and> limit (Where query args new_stmt) = None)"
    using bound by (simp add: GetConditionsLimit_unfold len_def Where_def new_stmt_def)
  have rows: "\<forall>row \<in> set (elems (fst (GetConditionsLimit dao maxCount query args d))).
         holds (query, args) row \<and> row \<in> set (table d)"
    if a: "answers (db dao) table holds"
  proof (cases "0 < maxCount")
    case True
    with answers_rows [OF a conds_Limit_Where, of maxCount query args d]
    show ?thesis by (simp add: GetConditionsLimit_unfold elems_def)
  next
    case False
    with answers_rows [OF a conds_Where, of query args d]
    show ?thesis by (simp add: GetConditionsLimit_unfold GetConditions_unfold elems_def)
  qed
  have every: "fst (GetConditionsLimit dao maxCount query args d)
        = Slice (filter (holds (query, args)) (table d))"
    if a: "answers (db dao) table holds" and m: "maxCount \<le> 0"
      and e: "snd (GetConditionsLimit dao maxCount query args d) = None"
  proof -
    from m e have "Error (snd (Find_exec (db dao) (Where query args new_stmt) d)) = None"
      by (simp add: GetConditionsLimit_unfold GetConditions_unfold returned_def)
    from answers_all [OF a conds_Where _ _ this]
    have "scanned (fst (Find_exec (db dao) (Where query args new_stmt) d))
        = filter (holds (query, args)) (table d)"
      by (simp add: Where_def new_stmt_def)
    with m show ?thesis
      by (simp add: GetConditionsLimit_unfold GetConditions_unfold)
  qed
  from old rows every show ?thesis by blast
qed

theorem GetConditionsLimit_bound_witness:
  "GetConditionsLimit dao0 2 (Str ''id > ?'') [Uint64 1] four_rows
     = (Slice [simple 2 jan2, simple 3 jan1], None)
   \<and> GetConditionsLimit dao0 0 (Str ''id > ?'') [Uint64 1] four_rows
     = (Slice [simple 2 jan2, simple 3 jan1, simple 4 jan2], None)
   \<and> GetConditionsLimit dao0 (- 1) (Str ''id = ?'') [Uint64 3] four_rows
     = (Slice [simple 3 jan1], None)
   \<and> filter (cond_holds (Str ''id > ?'', [Uint64 1])) (rows four_rows)
     = [simple 2 jan2, simple 3 jan1, simple 4 jan2]"
proof -
  have h: "honours_limit (db dao0)"
    by (simp add: dao0_def store_honours_limit)
  have a: "answers (db dao0) rows cond_holds"
    by (simp add: dao0_def store_answers)
  have f: "filter (cond_holds (Str ''id > ?'', [Uint64 1])) (rows four_rows)
     = [simple 2 jan2, simple 3 jan1, simple 4 jan2]"
    by (simp add: four_rows_def store_defs)
  have g: "filter (cond_holds (Str ''id = ?'', [Uint64 3])) (rows four_rows) = [simple 3 jan1]"
    by (simp add: four_rows_def store_defs)
  have e2: "GetConditionsLimit dao0 2 (Str ''id > ?'') [Uint64 1] four_rows
     = (Slice [simple 2 jan2, simple 3 jan1], None)"
    by (simp add: GetConditionsLimit_unfold four_rows_def store_defs scanned_def returned_def)
  have e0: "snd (GetConditionsLimit dao0 0 (Str ''id > ?'') [Uint64 1] four_rows) = None"
    by (simp add: GetConditionsLimit_unfold GetConditions_unfold four_rows_def store_defs returned_def)
  have e1: "snd (GetConditionsLimit dao0 (- 1) (Str ''id = ?'') [Uint64 3] four_rows) = None"
    by (simp add: GetConditionsLimit_unfold GetConditions_unfold four_rows_def store_defs returned_def)
  note t0 = GetConditionsLimit_bound [where maxCount = 0 and dao = dao0 and table = rows
         and holds = cond_holds and query = "Str ''id > ?''" and args = "[Uint64 1]" and d = four_rows]
  have m0: "(0::int) \<le> 0" by simp
  from t0 a m0 e0
  have "fst (GetConditionsLimit dao0 0 (Str ''id > ?'') [Uint64 1] four_rows)
     = Slice (filter (cond_holds (Str ''id > ?'', [Uint64 1])) (rows four_rows))"
    by blast
  then have w0: "fst (GetConditionsLimit dao0 0 (Str ''id > ?'') [Uint64 1] four_rows)
     = Slice [simple 2 jan2, simple 3 jan1, simple 4 jan2]"
    by (simp only: f)
  note t1 = GetConditionsLimit_bound [where maxCount = "- 1" and dao = dao0 and table = rows
         and holds = cond_holds and query = "Str ''id = ?''" and args = "[Uint64 3]" and d = four_rows]
  have m1: "(- 1::int) \<le> 0" by simp
  from t1 a m1 e1
  have "fst (GetConditionsLimit dao0 (- 1) (Str ''id = ?'') [Uint64 3] four_rows)
     = Slice (filter (cond_holds (Str ''id = ?'', [Uint64 3])) (rows four_rows))"
    by blast
  then have w1: "fst (GetConditionsLimit dao0 (- 1) (Str ''id = ?'') [Uint64 3] four_rows)
     = Slice [simple 3 jan1]"
    by (simp only: g)
  from w0 e0 w1 e1 e2 f show ?thesis
    by (simp add: prod_eq_iff)
qed

section \<open>Delete\<close>

text \<open>
  Claim C7. \<^verbatim>\<open>Delete\<close> returns the error of the delete it executes and nothing else:
  no error when the execution reports none, whatever the number of rows affected, and
  an error exactly when the execution reports one. On an engine whose deletes settle,
  a second \<^verbatim>\<open>Delete\<close> of the same id after a successful one returns no error and leaves
  the contents as the first left them.
\<close>

theorem Delete_idempotent:
  assumes "Delete_exec (db dao) (Where (Str ''id = ?'') [Uint64 i] new_stmt) d = (r, d')"
  shows "Delete dao i d = (returned r, d')
       \<and> (Error r = None \<longrightarrow> fst (Delete dao i d) = None)
       \<and> (fst (Delete dao i d) \<noteq> None \<longleftrightarrow> Error r \<noteq> None)
       \<and> (delete_settles (db dao) \<and> Error r = None \<longrightarrow> Delete dao i d' = (None, d'))"
proof -
  have 1: "Delete dao i d = (returned r, d')"
    using assms by (simp add: Delete_def)
  have 2: "delete_settles (db dao) \<and> Error r = None \<longrightarrow> Delete dao i d' = (None, d')"
  proof
    assume h: "delete_settles (db dao) \<and> Error r = None"
    then have "Error (fst (Delete_exec (db dao) (Where (Str ''id = ?'') [Uint64 i] new_stmt) d')) = None
        \<and> snd (Delete_exec (db dao) (Where (Str ''id = ?'') [Uint64 i] new_stmt) d') = d'"
      using assms unfolding delete_settles_def by blast
    then show "Delete dao i d' = (None, d')"
      by (auto simp: Delete_def returned_def split: prod.splits)
  qed
  show ?thesis using 1 2 by (auto simp: returned_def)
qed

theorem Delete_idempotent_witness:
  "Delete dao0 1 (empty_store\<lparr>rows := [simple 1 jan1, simple 2 jan2]\<rparr>)
     = (None, empty_store\<lparr>rows := [simple 2 jan2]\<rparr>)
   \<and> Delete dao0 1 (empty_store\<lparr>rows := [simple 2 jan2]\<rparr>)
     = (None, empty_store\<lparr>rows := [simple 2 jan2]\<rparr>)"
proof -
  have s: "delete_settles (db dao0)"
    by (simp add: dao0_def store_delete_settles)
  have e: "Delete_exec (db dao0) (Where (Str ''id = ?'') [Uint64 1] new_stmt)
             (empty_store\<lparr>rows := [simple 1 jan1, simple 2 jan2]\<rparr>)
           = (ok_result 1, empty_store\<lparr>rows := [simple 2 jan2]\<rparr>)"
    by (simp add: store_defs)
  from Delete_idempotent [OF e] s show ?thesis
    by (simp add: ok_result_def returned_def)
qed

section \<open>Constructing the repository\<close>

text \<open>
  In terms of the answer of the probe: when \<^verbatim>\<open>HasTable\<close>, asked with the Go type name,
  answers true, \<^verbatim>\<open>NewDao\<close> returns a repository over the given connection and the
  contents are untouched; \<^verbatim>\<open>AutoMigrate\<close> runs only when it answers false; and \<^verbatim>\<open>NewDao\<close>
  returns \<^verbatim>\<open>nil\<close> exactly when the probe answered false and \<^verbatim>\<open>AutoMigrate\<close> failed.
\<close>

lemma NewDao_by_probe:
  "(HasTable g (Name t) d \<longrightarrow> NewDao g t d = (Some \<lparr>db = g, T = t\<rparr>, d))
   \<and> (\<not> HasTable g (Name t) d \<longrightarrow> snd (NewDao g t d) = snd (AutoMigrate g t d))
   \<and> (fst (NewDao g t d) = None \<longleftrightarrow> \<not> HasTable g (Name t) d \<and> fst (AutoMigrate g t d) \<noteq> None)
   \<and> (fst (NewDao g t d) \<noteq> None \<longrightarrow> fst (NewDao g t d) = Some \<lparr>db = g, T = t\<rparr>)"
  by (auto simp: NewDao_def split: prod.splits option.splits)

text \<open>
  Claim C5. The claim says that when the table already exists construction performs
  the probe only. Under \<^verbatim>\<open>NoLowerCase = false\<close> the table of \<^verbatim>\<open>DbSimple\<close> is \<^verbatim>\<open>db_simple\<close>.
  On contents that hold this table, the probe, asked with the type name \<^verbatim>\<open>DbSimple\<close>,
  answers false, and \<^verbatim>\<open>NewDao\<close> runs \<^verbatim>\<open>AutoMigrate\<close> on the existing table; a second
  \<^verbatim>\<open>NewDao\<close> on the contents the first one left runs it once more.
\<close>

theorem NewDao_migrates_existing_table:
  "snake_name (Name T_DbSimple) \<in> set (tables snake_store)
   \<and> HasTable snake_engine (Name T_DbSimple) snake_store = False
   \<and> NewDao snake_engine T_DbSimple snake_store
       = (Some \<lparr>db = snake_engine, T = T_DbSimple\<rparr>,
          snake_store\<lparr>issued := [''AutoMigrate db_simple'']\<rparr>)
   \<and> NewDao snake_engine T_DbSimple (snake_store\<lparr>issued := [''AutoMigrate db_simple'']\<rparr>)
       = (Some \<lparr>db = snake_engine, T = T_DbSimple\<rparr>,
          snake_store\<lparr>issued := [''AutoMigrate db_simple'', ''AutoMigrate db_simple'']\<rparr>)"
  by (simp add: NewDao_def snake_engine_def snake_store_def snake_name_def store_defs)

section \<open>Malformed connection strings\<close>

lemma Split_not_Nil: "Split s sep \<noteq> []"
  by (induction s) (auto split: list.splits)

lemma Split_no_sep: "sep \<notin> set s \<Longrightarrow> Split s sep = [s]"
  by (induction s) auto

lemma Split_length: "length (Split s sep) = Suc (length (filter (\<lambda>c. c = sep) s))"
  by (induction s) (auto simp: Split_not_Nil split: list.splits)

lemma Split_single: "Split s sep = [w] \<Longrightarrow> sep \<notin> set s"
proof -
  assume "Split s sep = [w]"
  then have "length (filter (\<lambda>c. c = sep) s) = 0"
    using Split_length [of s sep] by simp
  then show ?thesis by (auto simp: filter_empty_conv)
qed

lemma index_simps:
  "index [] i = None"
  "index (x # xs) 0 = Some x"
  "index [x] (Suc 0) = None"
  "index (x # y # ys) (Suc 0) = Some y"
  by (simp_all add: index_def)

lemma connect_cases:
  assumes sp: "Split (Connect st) CHR ''|'' = kind # rest"
  shows "(kind \<notin> set kinds \<longrightarrow> connect e st = Panic (error_value ''unknown db type''))
       \<and> (rest = [] \<longrightarrow> (\<exists>p. connect e st = Panic p))
       \<and> (\<forall>param more. kind = ''sqlite'' \<and> rest = param # more \<and> CHR ''&'' \<notin> set param
            \<longrightarrow> (\<exists>p. connect e st = Panic p))
       \<and> (connect e st = Panic index_out_of_range \<longrightarrow>
            rest = [] \<or> (\<exists>param more. kind = ''sqlite'' \<and> rest = param # more \<and> CHR ''&'' \<notin> set param))"
proof (intro conjI impI allI)
  assume "kind \<notin> set kinds"
  then show "connect e st = Panic (error_value ''unknown db type'')"
    by (simp add: connect_def sp index_simps kinds_def Let_def)
next
  assume "rest = []"
  then show "\<exists>p. connect e st = Panic p"
    by (simp add: connect_def sp index_simps Let_def)
next
  fix param more
  assume "kind = ''sqlite'' \<and> rest = param # more \<and> CHR ''&'' \<notin> set param"
  then show "\<exists>p. connect e st = Panic p"
    by (simp add: connect_def sp index_simps Let_def Split_no_sep
             split: option.splits sum.splits)
next
  assume p: "connect e st = Panic index_out_of_range"
  show "rest = [] \<or> (\<exists>param more. kind = ''sqlite'' \<and> rest = param # more \<and> CHR ''&'' \<notin> set param)"
  proof (cases rest)
    case Nil
    then show ?thesis by simp
  next
    case (Cons param more)
    show ?thesis
    proof (cases "Split param CHR ''&''")
      case Nil
      then show ?thesis by (simp add: Split_not_Nil)
    next
      case (Cons path modes)
      note spp = this
      show ?thesis
      proof (cases modes)
        case Nil
        with spp have "CHR ''&'' \<notin> set param" by (simp add: Split_single)
        moreover have "kind = ''sqlite''"
          using p \<open>rest = param # more\<close> 
          by (simp add: connect_def sp index_simps Let_def
                  split: option.splits sum.splits if_splits)
        ultimately show ?thesis using \<open>rest = param # more\<close> by simp
      next
        case (Cons mode modes')
        with p spp \<open>rest = param # more\<close> show ?thesis
          by (simp add: connect_def sp index_simps Let_def
                  split: option.splits sum.splits if_splits)
      qed
    qed
  qed
qed

lemmas env_defs = env_of_def zero_setting_def load_setting_def NewDb_def connect_def
  index_def kinds_def Let_def

text \<open>
  Claim C6. Let the configuration resolve to a setting whose connection string is
  \<open>Connect st\<close>. If the token before the first \<^verbatim>\<open>|\<close> is none of the four kinds, \<^verbatim>\<open>NewDb\<close>
  panics with "unknown db type". If the string has no \<^verbatim>\<open>|\<close>, or its kind is sqlite and
  the parameter has no \<^verbatim>\<open>&\<close>, \<^verbatim>\<open>NewDb\<close> panics and returns no connection. The index
  panic of \<^verbatim>\<open>sp[1]\<close> and \<^verbatim>\<open>spp[1]\<close> happens for such strings only.
\<close>

theorem NewDb_malformed_panics:
  assumes "baseCfg e = Some moduleName"
    and "load_setting e moduleName section = Some st"
  shows "(hd (Split (Connect st) CHR ''|'') \<notin> set kinds \<longrightarrow>
            NewDb e section = Panic (error_value ''unknown db type''))
       \<and> (CHR ''|'' \<notin> set (Connect st) \<longrightarrow> (\<exists>p. NewDb e section = Panic p))
       \<and> (\<forall>param more. Split (Connect st) CHR ''|'' = ''sqlite'' # param # more
              \<and> CHR ''&'' \<notin> set param \<longrightarrow> (\<exists>p. NewDb e section = Panic p))
       \<and> (NewDb e section = Panic index_out_of_range \<longrightarrow>
            CHR ''|'' \<notin> set (Connect st)
            \<or> (\<exists>param more. Split (Connect st) CHR ''|'' = ''sqlite'' # param # more
                  \<and> CHR ''&'' \<notin> set param))"
proof -
  have run: "NewDb e section = connect e st"
    using assms by (simp add: NewDb_def)
  obtain kind rest where sp: "Split (Connect st) CHR ''|'' = kind # rest"
    using Split_not_Nil [of "Connect st" "CHR ''|''"] by (cases "Split (Connect st) CHR ''|''") auto
  note c = connect_cases [OF sp, of e]
  have 1: "hd (Split (Connect st) CHR ''|'') \<notin> set kinds \<longrightarrow>
            NewDb e section = Panic (error_value ''unknown db type'')"
    using c by (simp add: run sp)
  have 2: "CHR ''|'' \<notin> set (Connect st) \<longrightarrow> (\<exists>p. NewDb e section = Panic p)"
  proof
    assume "CHR ''|'' \<notin> set (Connect st)"
    then have "rest = []" using sp by (simp add: Split_no_sep)
    with c show "\<exists>p. NewDb e section = Panic p" by (simp add: run)
  qed
  have 3: "\<forall>param more. Split (Connect st) CHR ''|'' = ''sqlite'' # param # more
              \<and> CHR ''&'' \<notin> set param \<longrightarrow> (\<exists>p. NewDb e section = Panic p)"
    using c by (simp add: run sp)
  have 4: "NewDb e section = Panic index_out_of_range \<longrightarrow>
            CHR ''|'' \<notin> set (Connect st)
            \<or> (\<exists>param more. Split (Connect st) CHR ''|'' = ''sqlite'' # param # more
                  \<and> CHR ''&'' \<notin> set param)"
  proof
    assume "NewDb e section = Panic index_out_of_range"
    with c have "rest = [] \<or> (\<exists>param more. kind = ''sqlite'' \<and> rest = param # more
        \<and> CHR ''&'' \<notin> set param)"
      by (simp add: run)
    then show "CHR ''|'' \<notin> set (Connect st)
            \<or> (\<exists>param more. Split (Connect st) CHR ''|'' = ''sqlite'' # param # more
                  \<and> CHR ''&'' \<notin> set param)"
    proof
      assume "rest = []"
      with sp have "CHR ''|'' \<notin> set (Connect st)" by (simp add: Split_single)
      then show ?thesis ..
    next
      assume "\<exists>param more. kind = ''sqlite'' \<and> rest = param # more \<and> CHR ''&'' \<notin> set param"
      with sp show ?thesis by auto
    qed
  qed
  from 1 2 3 4 show ?thesis by blast
qed

theorem NewDb_malformed_panics_witness:
  "NewDb (env_of ''oracle|x'') ''db'' = Panic (error_value ''unknown db type'')
   \<and> NewDb (env_of ''mysql'') ''db'' = Panic index_out_of_range
   \<and> NewDb (env_of ''sqlite|./db/data.db'') ''db'' = Panic index_out_of_range
   \<and> NewDb (env_of ''sqlite|./db/data.db&OFF'') ''db''
       = Return (Some [''open'', ''PRAGMA journal_mode = OFF;''])"
proof -
  have b: "baseCfg (env_of conn) = Some ''app''" for conn
    by (simp add: env_of_def)
  have l: "load_setting (env_of conn) ''app'' ''db'' = Some (zero_setting\<lparr>Connect := conn\<rparr>)" for conn
    by (simp add: env_of_def load_setting_def)
  from NewDb_malformed_panics [OF b [of "''oracle|x''"] l [of "''oracle|x''"]]
  have 1: "NewDb (env_of ''oracle|x'') ''db'' = Panic (error_value ''unknown db type'')"
    by (simp add: kinds_def)
  from NewDb_malformed_panics [OF b [of "''mysql''"] l [of "''mysql''"]]
  have 2: "\<exists>p. NewDb (env_of ''mysql'') ''db'' = Panic p"
    by simp
  from NewDb_malformed_panics [OF b [of "''sqlite|./db/data.db''"] l [of "''sqlite|./db/data.db''"]]
  have 3: "\<exists>p. NewDb (env_of ''sqlite|./db/data.db'') ''db'' = Panic p"
    by simp
  have w2: "NewDb (env_of ''mysql'') ''db'' = Panic index_out_of_range"
    using 2 by (simp add: env_defs)
  have w3: "NewDb (env_of ''sqlite|./db/data.db'') ''db'' = Panic index_out_of_range"
    using 3 by (simp add: env_defs)
  have 4: "NewDb (env_of ''sqlite|./db/data.db&OFF'') ''db''
       = Return (Some [''open'', ''PRAGMA journal_mode = OFF;''])"
    by (simp add: env_defs)
  from 1 w2 w3 4 show ?thesis by simp
qed

end
